theory Spec2Isabelle
  imports Complex_Main
begin

section \<open>The single-drone environment adapter \<open>MyAviary\<close> (src/Base.py)\<close>

text \<open>
  The embedding follows \<^verbatim>\<open>src/Base.py\<close>. Conventions:
  \<^item> a one-dimensional numpy array of floats is a list of reals (\<open>ndarray\<close>); float64
    arithmetic is idealised as real arithmetic, and a float division by zero (numpy returns
    \<open>inf\<close> or \<open>nan\<close> there, without raising) is the outcome \<open>NonFinite\<close>;
  \<^item> a raised exception and \<^verbatim>\<open>exit()\<close> are values of \<open>error\<close>, returned as \<open>Inl\<close>;
  \<^item> the attributes of \<^verbatim>\<open>self\<close> are the fields of a record, and a method that assigns to
    \<^verbatim>\<open>self\<close> returns the updated record;
  \<^item> a leading underscore of a Python name is dropped (\<^verbatim>\<open>_computeDone\<close> is \<open>computeDone\<close>).
\<close>

subsection \<open>Python values and numpy arrays\<close>

datatype error =
  SystemExit | IndexError | ValueError | AttributeError | ZeroDivisionError | PybulletError | NonFinite

type_synonym ndarray = "real list"

text \<open>Sequencing of computations that may raise.\<close>

definition bindE :: "error + 'a \<Rightarrow> ('a \<Rightarrow> error + 'b) \<Rightarrow> error + 'b" where
  "bindE m f = (case m of Inl e \<Rightarrow> Inl e | Inr v \<Rightarrow> f v)"

text \<open>Python's short-circuit \<^verbatim>\<open>or\<close>: the right operand is evaluated only when the left one is false.\<close>

definition orE :: "error + bool \<Rightarrow> error + bool \<Rightarrow> error + bool" where
  "orE a b = (case a of Inl e \<Rightarrow> Inl e | Inr t \<Rightarrow> (if t then Inr True else b))"

text \<open>\<^verbatim>\<open>xs[i]\<close> for a non-negative literal index: out of range raises IndexError.\<close>

definition getitem :: "'a list \<Rightarrow> nat \<Rightarrow> error + 'a" where
  "getitem xs i = (if i < length xs then Inr (xs ! i) else Inl IndexError)"

text \<open>\<^verbatim>\<open>xs[a:b]\<close> and \<^verbatim>\<open>xs[a:]\<close> for non-negative literal bounds: a slice never raises.\<close>

definition slice :: "'a list \<Rightarrow> nat \<Rightarrow> nat \<Rightarrow> 'a list" where
  "slice xs a b = take (b - a) (drop a xs)"

definition slice_from :: "'a list \<Rightarrow> nat \<Rightarrow> 'a list" where
  "slice_from xs a = drop a xs"

text \<open>
  An elementwise binary operation of numpy on two one-dimensional arrays, with
  broadcasting: equal lengths pair up, an array of length one is stretched, and any other
  pair of lengths raises ValueError.
\<close>

definition broadcast2 :: "(real \<Rightarrow> real \<Rightarrow> real) \<Rightarrow> ndarray \<Rightarrow> ndarray \<Rightarrow> error + ndarray" where
  "broadcast2 f xs ys =
     (if length xs = length ys then Inr (map2 f xs ys)
      else if length xs = 1 then Inr (map (f (hd xs)) ys)
      else if length ys = 1 then Inr (map (\<lambda>x. f x (hd ys)) xs)
      else Inl ValueError)"

text \<open>An array and a scalar: \<^verbatim>\<open>c * xs\<close>, \<^verbatim>\<open>c + xs\<close>, \<^verbatim>\<open>xs + c\<close>, \<^verbatim>\<open>xs - c\<close>, \<^verbatim>\<open>xs * c\<close>, \<^verbatim>\<open>xs / c\<close>.\<close>

definition scalar_mul :: "real \<Rightarrow> ndarray \<Rightarrow> ndarray" where
  "scalar_mul c xs = map (\<lambda>x. c * x) xs"

definition scalar_add :: "real \<Rightarrow> ndarray \<Rightarrow> ndarray" where
  "scalar_add c xs = map (\<lambda>x. c + x) xs"

definition add_scalar :: "ndarray \<Rightarrow> real \<Rightarrow> ndarray" where
  "add_scalar xs c = map (\<lambda>x. x + c) xs"

definition sub_scalar :: "ndarray \<Rightarrow> real \<Rightarrow> ndarray" where
  "sub_scalar xs c = map (\<lambda>x. x - c) xs"

definition mul_scalar :: "ndarray \<Rightarrow> real \<Rightarrow> ndarray" where
  "mul_scalar xs c = map (\<lambda>x. x * c) xs"

definition div_scalar :: "ndarray \<Rightarrow> real \<Rightarrow> error + ndarray" where
  "div_scalar xs c = (if c = 0 then Inl NonFinite else Inr (map (\<lambda>x. x / c) xs))"

text \<open>\<^verbatim>\<open>np.linalg.norm\<close> of a one-dimensional array: the Euclidean norm.\<close>

definition linalg_norm :: "ndarray \<Rightarrow> real" where
  "linalg_norm xs = sqrt (sum_list (map (\<lambda>x. x * x) xs))"

text \<open>\<^verbatim>\<open>np.zeros(n)\<close>, and \<^verbatim>\<open>np.repeat(xs, n)\<close>, which repeats each element in place.\<close>

definition zeros :: "nat \<Rightarrow> ndarray" where
  "zeros n = replicate n 0"

definition repeat :: "ndarray \<Rightarrow> nat \<Rightarrow> ndarray" where
  "repeat xs n = concat (map (replicate n) xs)"

subsection \<open>Enumerations\<close>

datatype ActionType = RPM | DYN | THR | PID | VEL | TUN | ONE_D_RPM | ONE_D_DYN | ONE_D_PID

datatype ObservationType = KIN | RGB

text \<open>
  \<open>DroneModel\<close> is imported from \<^verbatim>\<open>BaseAviary\<close>; the three members are the ones
  \<^verbatim>\<open>src/Base.py\<close> names.
\<close>

datatype DroneModel = CF2X | CF2P | HB

text \<open>
  Python does not check the annotation of a parameter: an attribute such as
  \<^verbatim>\<open>self.ACT_TYPE\<close> holds a member of its enumeration (\<open>Member\<close>) or some other value
  (\<open>NotMember\<close>), for which the \<^verbatim>\<open>else\<close> branches of the source are written.
\<close>

datatype 'e pyenum = Member 'e | NotMember

subsection \<open>The state of the drone and of the physics server\<close>

datatype vec3 = Vec3 real real real

datatype vec4 = Vec4 real real real real

fun list3 :: "vec3 \<Rightarrow> ndarray" where
  "list3 (Vec3 a b c) = [a, b, c]"

fun list4 :: "vec4 \<Rightarrow> ndarray" where
  "list4 (Vec4 a b c d) = [a, b, c, d]"

text \<open>
  Modelled from the spec: the kinematic state that \<^verbatim>\<open>BaseAviary\<close> (not under src/) keeps for
  drone 0, "position[3], orientation-quaternion[4], orientation-euler[3], linear
  velocity[3], angular velocity[3], last motor RPMs[4]".
\<close>

record DroneState =
  pos :: vec3
  quat :: vec4
  rpy :: vec3
  vel :: vec3
  ang_v :: vec3
  last_clipped_action :: vec4

text \<open>
  Modelled from the spec: \<^verbatim>\<open>BaseAviary._getDroneStateVector(0)\<close> (not under src/), the
  20-element snapshot vector of the fields above, in that order; the source reads it
  with the slices \<^verbatim>\<open>[0:3]\<close>, \<^verbatim>\<open>[3:7]\<close>, \<^verbatim>\<open>[7:10]\<close>, \<^verbatim>\<open>[10:13]\<close>, \<^verbatim>\<open>[13:16]\<close>, \<^verbatim>\<open>[16:]\<close>.
\<close>

definition getDroneStateVector :: "DroneState \<Rightarrow> ndarray" where
  "getDroneStateVector s =
     list3 (pos s) @ list4 (quat s) @ list3 (rpy s) @ list3 (vel s) @ list3 (ang_v s)
       @ list4 (last_clipped_action s)"

text \<open>A capture of the on-board camera, of shape (H, W, 4).\<close>

type_synonym image = "nat list list list"

text \<open>
  The part of the outside world the methods act on: the lines printed to standard
  output, the bodies of the physics server (\<^verbatim>\<open>p.loadURDF\<close> gives a new body the next
  unique id, counted from 0, and \<^verbatim>\<open>p.resetBasePositionAndOrientation\<close> moves a body),
  the frame the camera of drone 0 would capture now (\<^verbatim>\<open>_getDroneImages(0)\<close>), and the
  frames written by \<^verbatim>\<open>_exportImage\<close>.
\<close>

record body =
  urdf :: string
  basePosition :: ndarray
  baseOrientation :: vec4

record world =
  stdout :: "string list"
  bodies :: "body list"
  camera :: image
  exported :: "(int \<times> image) list"

definition print :: "string \<Rightarrow> world \<Rightarrow> world" where
  "print msg w = w\<lparr>stdout := stdout w @ [msg]\<rparr>"

definition loadURDF :: "string \<Rightarrow> ndarray \<Rightarrow> vec4 \<Rightarrow> world \<Rightarrow> nat \<times> world" where
  "loadURDF file position orientation w =
     (length (bodies w),
      w\<lparr>bodies := bodies w @ [\<lparr>urdf = file, basePosition = position, baseOrientation = orientation\<rparr>]\<rparr>)"

definition resetBasePositionAndOrientation ::
    "nat \<Rightarrow> ndarray \<Rightarrow> vec4 \<Rightarrow> world \<Rightarrow> (error + unit) \<times> world" where
  "resetBasePositionAndOrientation i position orientation w =
     (if i < length (bodies w)
      then (Inr (),
            w\<lparr>bodies := (bodies w)[i := (bodies w ! i)\<lparr>basePosition := position, baseOrientation := orientation\<rparr>]\<rparr>)
      else (Inl PybulletError, w))"

text \<open>
  The pure conversions of the pybullet module, taken as parameters:
  \<^verbatim>\<open>p.getQuaternionFromEuler\<close> returns a tuple of 4 floats and
  \<^verbatim>\<open>p.getMatrixFromQuaternion\<close> a tuple of 9 floats, the rotation matrix row by row.
\<close>

datatype mat9 = Mat9 real real real real real real real real real

fun list9 :: "mat9 \<Rightarrow> ndarray" where
  "list9 (Mat9 a b c d e f g h i) = [a, b, c, d, e, f, g, h, i]"

record pybullet =
  getQuaternionFromEuler :: "ndarray \<Rightarrow> vec4"
  getMatrixFromQuaternion :: "vec4 \<Rightarrow> mat9"

subsection \<open>The environment object\<close>

text \<open>
  An attribute that only some branches of \<^verbatim>\<open>__init__\<close> or \<^verbatim>\<open>_addTarget\<close> create is
  \<open>Absent\<close> until then, and reading it raises AttributeError. An attribute that holds
  Python's \<^verbatim>\<open>None\<close> is \<open>None\<close> of an option type.
\<close>

datatype 'a attr = Absent | Attr 'a

definition getattr :: "'a attr \<Rightarrow> error + 'a" where
  "getattr a = (case a of Absent \<Rightarrow> Inl AttributeError | Attr v \<Rightarrow> Inr v)"

datatype Controller = DSLPIDControl DroneModel | SimplePIDControl DroneModel

record tuned_gains =
  TUNED_P_POS :: ndarray
  TUNED_I_POS :: ndarray
  TUNED_D_POS :: ndarray
  TUNED_P_ATT :: ndarray
  TUNED_I_ATT :: ndarray
  TUNED_D_ATT :: ndarray

text \<open>
  The attributes that \<^verbatim>\<open>BaseAviary.__init__\<close> (not under src/) sets and the source reads.
  \<open>drone\<close> stands for the kinematic attributes behind \<^verbatim>\<open>_getDroneStateVector(0)\<close>.
\<close>

record BaseAviary =
  INIT_XYZS :: "ndarray list"
  HOVER_RPM :: real
  GRAVITY :: real
  MAX_XY_TORQUE :: real
  MAX_Z_TORQUE :: real
  MAX_SPEED_KMH :: real
  AGGR_PHY_STEPS :: int
  TIMESTEP :: real
  step_counter :: int
  IMG_CAPTURE_FREQ :: int
  IMG_RES :: "nat list"
  RECORD :: bool
  rgb :: "image list"
  drone :: DroneState

text \<open>
  The attributes of \<^verbatim>\<open>MyAviary\<close> itself. The six \<^verbatim>\<open>TUNED_*\<close> arrays are assigned together
  and are one field. \<open>has_trajectoryTrackingRPMs\<close> says whether the instantiated class
  has a callable \<^verbatim>\<open>_trajectoryTrackingRPMs\<close>. The field \<open>prev_underscore\<close> is the attribute
  \<^verbatim>\<open>prev_\<close>, which exists once \<^verbatim>\<open>_addTarget\<close> has run and is read nowhere in the source.
\<close>

record MyAviary = BaseAviary +
  OBS_TYPE :: "ObservationType pyenum"
  ACT_TYPE :: "ActionType pyenum"
  EPISODE_LEN_SEC :: int
  target_ID :: "nat option"
  prev_action :: "ndarray option"
  prev_pos_err :: "ndarray option"
  prev_underscore :: "ndarray option attr"
  ctrl :: "Controller attr"
  TUNED :: "tuned_gains attr"
  SPEED_LIMIT :: "real attr"
  target_position :: ndarray
  has_trajectoryTrackingRPMs :: bool

subsection \<open>Termination: \<^verbatim>\<open>_computeDone\<close> (lines 438-461)\<close>

definition abs_gt :: "ndarray \<Rightarrow> nat \<Rightarrow> real \<Rightarrow> error + bool" where
  "abs_gt xs i c = bindE (getitem xs i) (\<lambda>v. Inr (\<bar>v\<bar> > c))"

definition abs_lt :: "ndarray \<Rightarrow> nat \<Rightarrow> real \<Rightarrow> error + bool" where
  "abs_lt xs i c = bindE (getitem xs i) (\<lambda>v. Inr (\<bar>v\<bar> < c))"

definition computeDone :: "MyAviary \<Rightarrow> error + bool" where
  "computeDone self =
     (let state = getDroneStateVector (drone self);
          curr_pos = slice state 0 3;
          curr_att = slice state 7 10
      in bindE (orE (abs_gt curr_pos 0 3) (orE (abs_gt curr_pos 1 3)
                  (orE (abs_gt curr_pos 2 3) (abs_lt curr_pos 2 0.02))))
           (\<lambda>out. if out then Inr True
              else bindE (orE (abs_gt curr_att 0 (pi / 2)) (orE (abs_gt curr_att 1 (pi / 2))
                           (abs_gt curr_att 2 (pi / 2))))
                     (\<lambda>tilted. if tilted then Inr True else Inr False)))"

subsection \<open>Reward: \<^verbatim>\<open>_invProcessAction\<close> and \<^verbatim>\<open>_computeReward\<close> (lines 399-436)\<close>

definition invProcessAction :: "MyAviary \<Rightarrow> ndarray \<Rightarrow> error + ndarray" where
  "invProcessAction self action =
     bindE (div_scalar action (HOVER_RPM self)) (\<lambda>q. Inr (mul_scalar (sub_scalar q 1.0) 20.0))"

text \<open>
  The method assigns \<^verbatim>\<open>self.prev_action\<close> before it computes the norms, so a ValueError
  of \<^verbatim>\<open>pos - target_position\<close> leaves the new previous action behind. After \<open>NonFinite\<close>
  the object is returned as it was: its state would hold non-finite floats.
\<close>

definition computeReward :: "MyAviary \<Rightarrow> (error + real) \<times> MyAviary" where
  "computeReward self =
     (let state = getDroneStateVector (drone self);
          pos' = slice state 0 3;
          att = slice state 7 10;
          vel' = slice state 10 13;
          ang_vel = slice state 13 16
      in case invProcessAction self (slice_from state 16) of
           Inl e \<Rightarrow> (Inl e, self)
         | Inr action \<Rightarrow>
            (case (case prev_action self of
                     Some prev \<Rightarrow>
                       bindE (broadcast2 (-) action prev)
                         (\<lambda>d. div_scalar d (real_of_int (AGGR_PHY_STEPS self)))
                   | None \<Rightarrow> div_scalar action (real_of_int (AGGR_PHY_STEPS self))) of
               Inl e \<Rightarrow> (Inl e, self)
             | Inr da_vec \<Rightarrow>
                (let self' = self\<lparr>prev_action := Some action\<rparr>;
                     da = linalg_norm da_vec
                 in case broadcast2 (-) pos' (target_position self) of
                      Inl e \<Rightarrow> (Inl e, self')
                    | Inr d \<Rightarrow>
                       (let pos_err = linalg_norm d;
                            att_err = linalg_norm att;
                            vel_err = linalg_norm vel';
                            ang_vel_err = linalg_norm ang_vel;
                            act_err = linalg_norm action
                        in (Inr (2.0 - 1.0 * pos_err - 0.04 * vel_err - 0.02 * att_err
                                   - 0.02 * act_err - 0.001 * da), self')))))"

subsection \<open>Spaces: \<^verbatim>\<open>_actionSpace\<close> (lines 192-216) and \<^verbatim>\<open>_observationSpace\<close> (lines 331-359)\<close>

text \<open>
  A \<^verbatim>\<open>spaces.Box\<close> of gym is built from two bound arrays, and then has their shape, or
  from two scalar bounds and a shape.
\<close>

datatype dtype = float32 | uint8

datatype space = Box ndarray ndarray dtype | BoxShape real real "nat list" dtype

fun shape :: "space \<Rightarrow> nat list" where
  "shape (Box low high t) = [length low]"
| "shape (BoxShape low high sh t) = sh"

definition ones :: "nat \<Rightarrow> ndarray" where
  "ones n = replicate n 1"

definition actionSpace :: "world \<Rightarrow> MyAviary \<Rightarrow> (error + space) \<times> world" where
  "actionSpace w self =
     (case (if ACT_TYPE self = Member TUN then Some 6
            else if ACT_TYPE self \<in> {Member RPM, Member DYN, Member VEL} then Some 4
            else if ACT_TYPE self = Member PID then Some 3
            else if ACT_TYPE self \<in> {Member ONE_D_RPM, Member ONE_D_DYN, Member ONE_D_PID} then Some 1
            else if ACT_TYPE self = Member THR then Some 4
            else None) of
        Some size' \<Rightarrow> (Inr (Box (scalar_mul (-1) (ones size')) (ones size') float32), w)
      | None \<Rightarrow> (Inl SystemExit, print ''[ERROR] in BaseSingleAgentAviary._actionSpace()'' w))"

text \<open>The value \<open>None\<close> is Python's \<^verbatim>\<open>None\<close>, returned when the method falls off its end.\<close>

definition observationSpace :: "world \<Rightarrow> MyAviary \<Rightarrow> (error + space option) \<times> world" where
  "observationSpace w self =
     (if OBS_TYPE self = Member RGB then
        (bindE (getitem (IMG_RES self) 1) (\<lambda>h. bindE (getitem (IMG_RES self) 0) (\<lambda>width.
           Inr (Some (BoxShape 0 255 [h, width, 4] uint8)))), w)
      else if OBS_TYPE self = Member KIN then
        (Inr (Some (Box [-1, -1, 0, -1, -1, -1, -1, -1, -1, -1, -1, -1]
                        [1, 1, 1, 1, 1, 1, 1, 1, 1, 1, 1, 1] float32)), w)
      else (Inr None, print ''[ERROR] in BaseSingleAgentAviary._observationSpace()'' w))"

subsection \<open>Observation: \<^verbatim>\<open>_computeObs\<close> (lines 363-395)\<close>

datatype observation = Kinematic ndarray | Image image

text \<open>\<^verbatim>\<open>int(a / b)\<close> of two Python ints: the quotient, truncated towards zero.\<close>

definition int_of_quotient :: "int \<Rightarrow> int \<Rightarrow> int" where
  "int_of_quotient a b =
     (if 0 \<le> real_of_int a / real_of_int b then \<lfloor>real_of_int a / real_of_int b\<rfloor>
      else \<lceil>real_of_int a / real_of_int b\<rceil>)"

text \<open>\<^verbatim>\<open>np.hstack([...]).reshape(n,)\<close>: the concatenation, which must have \<open>n\<close> elements.\<close>

definition reshape :: "ndarray \<Rightarrow> nat \<Rightarrow> error + ndarray" where
  "reshape xs n = (if length xs = n then Inr xs else Inl ValueError)"

definition computeObs ::
    "pybullet \<Rightarrow> world \<Rightarrow> MyAviary \<Rightarrow> (error + observation option) \<times> world \<times> MyAviary" where
  "computeObs p w self =
     (if OBS_TYPE self = Member RGB then
        (if IMG_CAPTURE_FREQ self = 0 then (Inl ZeroDivisionError, w, self)
         else if step_counter self mod IMG_CAPTURE_FREQ self = 0 then
           (if rgb self = [] then (Inl IndexError, w, self)
            else
              (let self' = self\<lparr>rgb := (rgb self)[0 := camera w]\<rparr>;
                   w' = (if RECORD self
                         then w\<lparr>exported := exported w @
                                  [(int_of_quotient (step_counter self) (IMG_CAPTURE_FREQ self),
                                    rgb self' ! 0)]\<rparr>
                         else w)
               in (Inr (Some (Image (rgb self' ! 0))), w', self')))
         else (bindE (getitem (rgb self) 0) (\<lambda>img. Inr (Some (Image img))), w, self))
      else if OBS_TYPE self = Member KIN then
        (let obs = getDroneStateVector (drone self)
         in (bindE (broadcast2 (-) (target_position self) (slice obs 0 3)) (\<lambda>diff.
               let Rotation_matrix =
                     getMatrixFromQuaternion p (getQuaternionFromEuler p (slice obs 7 10))
               in bindE (reshape (diff @ slice obs 10 13 @ slice obs 13 16 @ list9 Rotation_matrix) 18)
                    (\<lambda>v. Inr (Some (Kinematic v)))),
             w, self))
      else (Inr None, print ''[ERROR] in BaseSingleAgentAviary._computeObs()'' w, self))"

subsection \<open>Target: \<^verbatim>\<open>_addTarget\<close> (lines 171-187)\<close>

text \<open>
  \<^verbatim>\<open>not self.target_ID\<close> is true for \<^verbatim>\<open>None\<close> and for the body id 0; for any other id
  the marker is moved.
\<close>

definition addTarget ::
    "pybullet \<Rightarrow> world \<Rightarrow> MyAviary \<Rightarrow> ndarray \<Rightarrow> bool \<Rightarrow> (error + unit) \<times> world \<times> MyAviary" where
  "addTarget p w self position visual =
     (let self1 = self\<lparr>target_position := position, prev_underscore := Attr None\<rparr>;
          created =
            (case loadURDF ''cube_small.urdf'' position (getQuaternionFromEuler p [0, 0, 0]) w of
               (i, w') \<Rightarrow> (Inr (), w', self1\<lparr>target_ID := Some i\<rparr>))
      in if visual then
           (case target_ID self1 of
              None \<Rightarrow> created
            | Some i \<Rightarrow>
               if i = 0 then created
               else (case resetBasePositionAndOrientation i position
                            (getQuaternionFromEuler p [0, 0, 0]) w of
                       (r, w') \<Rightarrow> (r, w', self1)))
         else (Inr (), w, self1))"

subsection \<open>Action decoding: \<^verbatim>\<open>_preprocessAction\<close> (lines 220-327)\<close>

text \<open>
  The controllers, the thrust solver \<^verbatim>\<open>nnlsRPM\<close> and the trajectory tracking of a
  subclass are collaborators outside the source. Where the method returns what one of
  them returns, the model returns the call it makes: the receiver and the arguments the
  source computes (the remaining arguments of \<^verbatim>\<open>nnlsRPM\<close> are attributes of \<^verbatim>\<open>self\<close>, passed
  as they are). A keyword the source leaves out of \<^verbatim>\<open>computeControl\<close> is \<open>None\<close>.
\<close>

record computeControl_args =
  control_timestep :: real
  cur_pos :: ndarray
  cur_quat :: ndarray
  cur_vel :: ndarray
  cur_ang_vel :: ndarray
  target_pos :: ndarray
  target_rpy :: "ndarray option"
  target_vel :: "ndarray option"

datatype call =
    SetPIDCoefficients_trajectoryTrackingRPMs Controller ndarray ndarray ndarray ndarray ndarray ndarray
  | DslPIDAttitudeControl Controller real ndarray ndarray ndarray ndarray
  | NnlsRPM real real real real
  | ComputeControl Controller computeControl_args

datatype action_result = Rpm ndarray | Delegated call

text \<open>\<^verbatim>\<open>(action[i]+1)*gains\<close>, one keyword argument of \<^verbatim>\<open>setPIDCoefficients\<close>.\<close>

definition coeff :: "ndarray \<Rightarrow> nat \<Rightarrow> ndarray \<Rightarrow> error + ndarray" where
  "coeff action i gains = bindE (getitem action i) (\<lambda>a. Inr (scalar_mul (a + 1) gains))"

definition preprocessAction ::
    "world \<Rightarrow> MyAviary \<Rightarrow> ndarray \<Rightarrow> (error + action_result option) \<times> world" where
  "preprocessAction w self action =
     (if ACT_TYPE self = Member TUN then
        (bindE (getattr (ctrl self)) (\<lambda>c.
         bindE (getitem action 0) (\<lambda>a0.
         bindE (getattr (TUNED self)) (\<lambda>t.
         bindE (coeff action 1 (TUNED_I_POS t)) (\<lambda>i_pos.
         bindE (coeff action 2 (TUNED_D_POS t)) (\<lambda>d_pos.
         bindE (coeff action 3 (TUNED_P_ATT t)) (\<lambda>p_att.
         bindE (coeff action 4 (TUNED_I_ATT t)) (\<lambda>i_att.
         bindE (coeff action 5 (TUNED_D_ATT t)) (\<lambda>d_att.
           if has_trajectoryTrackingRPMs self
           then Inr (Some (Delegated (SetPIDCoefficients_trajectoryTrackingRPMs c
                  (scalar_mul (a0 + 1) (TUNED_P_POS t)) i_pos d_pos p_att i_att d_att)))
           else Inl AttributeError)))))))), w)
      else if ACT_TYPE self = Member RPM then
        (Inr (Some (Rpm (scalar_mul (HOVER_RPM self) (scalar_add 1 (scalar_mul 0.05 action))))), w)
      else if ACT_TYPE self = Member THR then
        (let state = getDroneStateVector (drone self)
         in (bindE (getattr (ctrl self)) (\<lambda>c.
               Inr (Some (Delegated (DslPIDAttitudeControl c
                 (real_of_int (AGGR_PHY_STEPS self) * TIMESTEP self)
                 (scalar_mul (GRAVITY self) (add_scalar action 1))
                 (slice state 3 7) (slice state 7 10) (slice state 13 16))))), w))
      else if ACT_TYPE self = Member DYN then
        (bindE (getitem action 0) (\<lambda>a0.
         bindE (getitem action 1) (\<lambda>a1.
         bindE (getitem action 2) (\<lambda>a2.
         bindE (getitem action 3) (\<lambda>a3.
           Inr (Some (Delegated (NnlsRPM (GRAVITY self * (a0 + 1))
                  (0.05 * MAX_XY_TORQUE self * a1) (0.05 * MAX_XY_TORQUE self * a2)
                  (0.05 * MAX_Z_TORQUE self * a3)))))))), w)
      else if ACT_TYPE self = Member PID then
        (let state = getDroneStateVector (drone self)
         in (bindE (getattr (ctrl self)) (\<lambda>c.
             bindE (broadcast2 (+) (slice state 0 3) (scalar_mul 0.1 action)) (\<lambda>tp.
               Inr (Some (Delegated (ComputeControl c
                 \<lparr>control_timestep = real_of_int (AGGR_PHY_STEPS self) * TIMESTEP self,
                  cur_pos = slice state 0 3, cur_quat = slice state 3 7,
                  cur_vel = slice state 10 13, cur_ang_vel = slice state 13 16,
                  target_pos = tp, target_rpy = None, target_vel = None\<rparr>))))), w))
      else if ACT_TYPE self = Member VEL then
        (let state = getDroneStateVector (drone self)
         in (bindE (if linalg_norm (slice action 0 3) \<noteq> 0
                    then div_scalar (slice action 0 3) (linalg_norm (slice action 0 3))
                    else Inr (zeros 3)) (\<lambda>v_unit_vector.
             bindE (getattr (ctrl self)) (\<lambda>c.
             bindE (getitem state 9) (\<lambda>yaw.
             bindE (getattr (SPEED_LIMIT self)) (\<lambda>speed_limit.
             bindE (getitem action 3) (\<lambda>a3.
               Inr (Some (Delegated (ComputeControl c
                 \<lparr>control_timestep = real_of_int (AGGR_PHY_STEPS self) * TIMESTEP self,
                  cur_pos = slice state 0 3, cur_quat = slice state 3 7,
                  cur_vel = slice state 10 13, cur_ang_vel = slice state 13 16,
                  target_pos = slice state 0 3, target_rpy = Some [0, 0, yaw],
                  target_vel = Some (scalar_mul (speed_limit * \<bar>a3\<bar>) v_unit_vector)\<rparr>)))))))), w))
      else if ACT_TYPE self = Member ONE_D_RPM then
        (Inr (Some (Rpm (repeat
           (scalar_mul (HOVER_RPM self) (scalar_add 1 (scalar_mul 0.05 action))) 4))), w)
      else if ACT_TYPE self = Member ONE_D_DYN then
        (bindE (getitem action 0) (\<lambda>a0.
           Inr (Some (Delegated (NnlsRPM (GRAVITY self * (1 + 0.05 * a0)) 0 0 0)))), w)
      else if ACT_TYPE self = Member ONE_D_PID then
        (let state = getDroneStateVector (drone self)
         in (bindE (getattr (ctrl self)) (\<lambda>c.
             bindE (getitem action 0) (\<lambda>a0.
             bindE (broadcast2 (+) (slice state 0 3) (scalar_mul 0.1 [0, 0, a0])) (\<lambda>tp.
               Inr (Some (Delegated (ComputeControl c
                 \<lparr>control_timestep = real_of_int (AGGR_PHY_STEPS self) * TIMESTEP self,
                  cur_pos = slice state 0 3, cur_quat = slice state 3 7,
                  cur_vel = slice state 10 13, cur_ang_vel = slice state 13 16,
                  target_pos = tp, target_rpy = None, target_vel = None\<rparr>)))))), w))
      else (Inr None, print ''[ERROR] in BaseSingleAgentAviary._preprocessAction()'' w))"

subsection \<open>Construction: \<^verbatim>\<open>__init__\<close> (lines 40-136)\<close>

text \<open>
  Lines 89-111: the controller and the reference gains for the action types that need a
  closed-loop controller. The branch for any other drone model prints and goes on. The
  assignment to \<^verbatim>\<open>os.environ\<close> changes the environment of the process only and is left out.
\<close>

definition create_controllers ::
    "world \<Rightarrow> DroneModel pyenum \<Rightarrow> ActionType pyenum \<Rightarrow> Controller attr \<times> tuned_gains attr \<times> world" where
  "create_controllers w drone_model act =
     (if act \<in> {Member PID, Member VEL, Member TUN, Member THR, Member ONE_D_PID} then
        (if drone_model \<in> {Member CF2X, Member CF2P} then
           (Attr (DSLPIDControl CF2X),
            (if act = Member TUN
             then Attr \<lparr>TUNED_P_POS = [0.4, 0.4, 1.25], TUNED_I_POS = [0.05, 0.05, 0.05],
                        TUNED_D_POS = [0.2, 0.2, 0.5], TUNED_P_ATT = [70000, 70000, 60000],
                        TUNED_I_ATT = [0, 0, 500], TUNED_D_ATT = [20000, 20000, 12000]\<rparr>
             else Absent), w)
         else if drone_model = Member HB then
           (Attr (SimplePIDControl HB),
            (if act = Member TUN
             then Attr \<lparr>TUNED_P_POS = [0.1, 0.1, 0.2], TUNED_I_POS = [0.0001, 0.0001, 0.0001],
                        TUNED_D_POS = [0.3, 0.3, 0.4], TUNED_P_ATT = [0.3, 0.3, 0.05],
                        TUNED_I_ATT = [0.0001, 0.0001, 0.0001], TUNED_D_ATT = [0.3, 0.3, 0.5]\<rparr>
             else Absent), w)
         else (Absent, Absent,
               print ''[ERROR] in BaseSingleAgentAviary.__init()__, no controller is available for the specified drone_model'' w))
      else (Absent, Absent, w))"

text \<open>
  The keyword arguments of \<^verbatim>\<open>super().__init__\<close>. \<^verbatim>\<open>BaseAviary.__init__\<close> is not under src/:
  it is the parameter \<open>super_init\<close>, which returns the attributes of the base class or
  raises. The type \<open>'ph\<close> stands for the imported enumeration \<^verbatim>\<open>Physics\<close>.
\<close>

record 'ph base_args =
  drone_model :: "DroneModel pyenum"
  num_drones :: nat
  initial_xyzs :: "ndarray list option"
  initial_rpys :: "ndarray list option"
  physics :: 'ph
  freq :: int
  aggregate_phy_steps :: int
  gui :: bool
  to_record :: bool
  obstacles :: bool
  user_debug_gui :: bool
  vision_attributes :: bool
  dynamics_attributes :: bool

definition init ::
    "('ph base_args \<Rightarrow> world \<Rightarrow> (error + BaseAviary) \<times> world) \<Rightarrow> bool \<Rightarrow> world \<Rightarrow>
     DroneModel pyenum \<Rightarrow> ndarray list option \<Rightarrow> ndarray list option \<Rightarrow> 'ph \<Rightarrow> int \<Rightarrow> int \<Rightarrow>
     bool \<Rightarrow> bool \<Rightarrow> ObservationType pyenum \<Rightarrow> ActionType pyenum \<Rightarrow> (error + MyAviary) \<times> world" where
  "init super_init has_tracking w dm xyzs rpys phy fr aggr gui' rec obs act =
     (case create_controllers w dm act of
        (c, t, w1) \<Rightarrow>
          (case super_init
                  \<lparr>drone_model = dm, num_drones = 1, initial_xyzs = xyzs, initial_rpys = rpys,
                   physics = phy, freq = fr, aggregate_phy_steps = aggr, gui = gui',
                   to_record = rec, obstacles = True, user_debug_gui = False,
                   vision_attributes = (obs = Member RGB),
                   dynamics_attributes = (act \<in> {Member DYN, Member ONE_D_DYN})\<rparr> w1 of
             (Inl e, w2) \<Rightarrow> (Inl e, w2)
           | (Inr base, w2) \<Rightarrow>
               if act = Member TUN \<and> \<not> has_tracking then
                 (Inl SystemExit,
                  print ''[ERROR] in BaseSingleAgentAviary.__init__(), ActionType.TUN requires an implementation of _trajectoryTrackingRPMs in the instantiated subclass'' w2)
               else
                 (bindE (getitem (INIT_XYZS base) 0) (\<lambda>xyz0.
                    Inr (BaseAviary.extend base (MyAviary.fields obs act 5 None None None Absent c t
                           (if act = Member VEL
                            then Attr (0.03 * MAX_SPEED_KMH base * (1000 / 3600)) else Absent)
                           xyz0 has_tracking))), w2)))"

subsection \<open>The formulas of the specification\<close>

text \<open>
  The reward as the specification writes it, from the position, the target, the linear
  velocity, the Euler angles, \<open>action_phys\<close> and \<open>da\<close>.
\<close>

definition spec_reward ::
    "ndarray \<Rightarrow> ndarray \<Rightarrow> ndarray \<Rightarrow> ndarray \<Rightarrow> ndarray \<Rightarrow> ndarray \<Rightarrow> real" where
  "spec_reward position target velocity euler action_phys da =
     2.0 - 1.0 * linalg_norm (map2 (-) position target) - 0.04 * linalg_norm velocity
       - 0.02 * linalg_norm euler - 0.02 * linalg_norm action_phys - 0.001 * linalg_norm da"

text \<open>\<open>action_phys = (last_motor_rpm / hover_rpm - 1) * 20\<close>.\<close>

definition spec_action_phys :: "real \<Rightarrow> ndarray \<Rightarrow> ndarray" where
  "spec_action_phys hover_rpm last_motor_rpm = map (\<lambda>r. (r / hover_rpm - 1) * 20) last_motor_rpm"

text \<open>\<open>da = (action_phys - previous_action_phys) / steps_per_call\<close>.\<close>

definition spec_da :: "ndarray \<Rightarrow> ndarray \<Rightarrow> int \<Rightarrow> ndarray" where
  "spec_da action_phys previous_action_phys steps_per_call =
     map (\<lambda>d. d / real_of_int steps_per_call) (map2 (-) action_phys previous_action_phys)"

text \<open>
  The termination condition as the specification writes it: a position component above
  3 in magnitude, or the altitude below 0.02, or an Euler angle above \<open>\<pi>/2\<close> in magnitude.
\<close>

fun spec_done :: "vec3 \<Rightarrow> vec3 \<Rightarrow> bool" where
  "spec_done (Vec3 x y z) (Vec3 r pt yw) =
     ((\<bar>x\<bar> > 3 \<or> \<bar>y\<bar> > 3 \<or> \<bar>z\<bar> > 3) \<or> z < 0.02 \<or> (\<bar>r\<bar> > pi / 2 \<or> \<bar>pt\<bar> > pi / 2 \<or> \<bar>yw\<bar> > pi / 2))"

subsection \<open>Concrete environments\<close>

text \<open>
  A CF2X drone at rest at the origin of the horizontal plane, half a metre up, level, its
  four motors at hover RPM; the physics server holds the ground plane and the drone.
\<close>

definition hovering :: DroneState where
  "hovering = \<lparr>pos = Vec3 0 0 0.5, quat = Vec4 0 0 0 1, rpy = Vec3 0 0 0, vel = Vec3 0 0 0,
                ang_v = Vec3 0 0 0, last_clipped_action = Vec4 14468 14468 14468 14468\<rparr>"

definition base0 :: BaseAviary where
  "base0 = \<lparr>INIT_XYZS = [[0, 0, 0.5]], HOVER_RPM = 14468, GRAVITY = 0.26487,
            MAX_XY_TORQUE = 0.0075, MAX_Z_TORQUE = 0.0066, MAX_SPEED_KMH = 30,
            AGGR_PHY_STEPS = 1, TIMESTEP = 1 / 240, step_counter = 0, IMG_CAPTURE_FREQ = 10,
            IMG_RES = [64, 48], RECORD = False, rgb = [[]], drone = hovering\<rparr>"

definition env0 :: MyAviary where
  "env0 = BaseAviary.extend base0
            (MyAviary.fields (Member KIN) (Member RPM) 5 None None None Absent Absent Absent Absent
               [0, 0, 0.5] False)"

definition w0 :: world where
  "w0 = \<lparr>stdout = [],
          bodies = [\<lparr>urdf = ''plane.urdf'', basePosition = [0, 0, 0], baseOrientation = Vec4 0 0 0 1\<rparr>,
                    \<lparr>urdf = ''cf2x.urdf'', basePosition = [0, 0, 0.5], baseOrientation = Vec4 0 0 0 1\<rparr>],
          camera = [], exported = []\<rparr>"

text \<open>The two conversions of pybullet at the level attitude: the unit quaternion and the identity matrix.\<close>

definition p0 :: pybullet where
  "p0 = \<lparr>getQuaternionFromEuler = (\<lambda>e. Vec4 0 0 0 1),
          getMatrixFromQuaternion = (\<lambda>q. Mat9 1 0 0 0 1 0 0 0 1)\<rparr>"

text \<open>A base-class constructor that succeeds with the attributes \<open>base0\<close>.\<close>

definition super0 :: "unit base_args \<Rightarrow> world \<Rightarrow> (error + BaseAviary) \<times> world" where
  "super0 args w = (Inr base0, w)"

section \<open>Properties\<close>

subsection \<open>Arrays and the state vector\<close>

lemma length_list3: "length (list3 v) = 3"
  by (cases v) simp

lemma length_list4: "length (list4 v) = 4"
  by (cases v) simp

lemma length_list9: "length (list9 m) = 9"
  by (cases m) simp

lemma state_slices:
  "slice (getDroneStateVector s) 0 3 = list3 (pos s)"
  "slice (getDroneStateVector s) 3 7 = list4 (quat s)"
  "slice (getDroneStateVector s) 7 10 = list3 (rpy s)"
  "slice (getDroneStateVector s) 10 13 = list3 (vel s)"
  "slice (getDroneStateVector s) 13 16 = list3 (ang_v s)"
  "slice_from (getDroneStateVector s) 16 = list4 (last_clipped_action s)"
  by (simp_all add: slice_def slice_from_def getDroneStateVector_def length_list3 length_list4)

lemma sum_list_squares_nonneg: "0 \<le> sum_list (map (\<lambda>x::real. x * x) xs)"
  by (induction xs) simp_all

lemma linalg_norm_eq_0_iff: "linalg_norm xs = 0 \<longleftrightarrow> (\<forall>x\<in>set xs. x = 0)"
proof (induction xs)
  case Nil
  show ?case by (simp add: linalg_norm_def)
next
  case (Cons a xs)
  have "a * a + sum_list (map (\<lambda>x. x * x) xs) = 0 \<longleftrightarrow> a = 0 \<and> sum_list (map (\<lambda>x. x * x) xs) = 0"
    using add_nonneg_eq_0_iff [OF zero_le_square [of a] sum_list_squares_nonneg [of xs]]
    by simp
  with Cons show ?case by (simp add: linalg_norm_def)
qed

lemma linalg_norm_zero3: "linalg_norm [0, 0, 0] = 0"
  by (simp add: linalg_norm_def)

lemma linalg_norm_zero4: "linalg_norm [0, 0, 0, 0] = 0"
  by (simp add: linalg_norm_def)

lemma linalg_norm_unit4: "linalg_norm [1, 0, 0, 0] = 1" "linalg_norm [-1, 0, 0, 0] = 1"
  by (simp_all add: linalg_norm_def)

lemma env0_fields:
  "HOVER_RPM env0 = 14468" "AGGR_PHY_STEPS env0 = 1" "drone env0 = hovering"
  "target_position env0 = [0, 0, 0.5]" "prev_action env0 = None"
  "ACT_TYPE env0 = Member RPM" "OBS_TYPE env0 = Member KIN" "target_ID env0 = None"
  by (simp_all add: env0_def base0_def BaseAviary.defs MyAviary.defs)

lemma env0_nonzero: "HOVER_RPM env0 \<noteq> 0" "AGGR_PHY_STEPS env0 \<noteq> 0"
  by (simp_all add: env0_fields)

subsection \<open>The reward\<close>

lemma invProcessAction_eq:
  "HOVER_RPM self \<noteq> 0 \<Longrightarrow>
   invProcessAction self rpm = Inr (spec_action_phys (HOVER_RPM self) rpm)"
  by (simp add: invProcessAction_def div_scalar_def bindE_def sub_scalar_def mul_scalar_def
      spec_action_phys_def)

lemma length_spec_action_phys: "length (spec_action_phys h xs) = length xs"
  by (simp add: spec_action_phys_def)

lemma zeros4: "zeros 4 = [0, 0, 0, 0]"
  by (simp add: zeros_def eval_nat_numeral)

lemma map2_minus_zeros4: "length a = 4 \<Longrightarrow> map2 (-) a [0, 0, 0, 0 :: real] = a"
  by (auto simp: length_Suc_conv eval_nat_numeral)

lemma spec_da_zeros4:
  "length a = 4 \<Longrightarrow> spec_da a (zeros 4) n = map (\<lambda>x. x / real_of_int n) a"
  by (simp only: spec_da_def zeros4 map2_minus_zeros4)

lemma computeReward_stored:
  assumes "HOVER_RPM self \<noteq> 0" and "AGGR_PHY_STEPS self \<noteq> 0"
    and "length prev = 4" and "length (target_position self) = 3"
    and "prev_action self = Some prev"
  shows "computeReward self =
     (let a = spec_action_phys (HOVER_RPM self) (list4 (last_clipped_action (drone self)))
      in (Inr (spec_reward (list3 (pos (drone self))) (target_position self)
                (list3 (vel (drone self))) (list3 (rpy (drone self))) a
                (spec_da a prev (AGGR_PHY_STEPS self))),
          self\<lparr>prev_action := Some a\<rparr>))"
  using assms
  by (simp add: computeReward_def state_slices invProcessAction_eq Let_def broadcast2_def
      length_spec_action_phys length_list4 length_list3 bindE_def div_scalar_def spec_reward_def
      spec_da_def)

lemma computeReward_first:
  assumes "HOVER_RPM self \<noteq> 0" and "AGGR_PHY_STEPS self \<noteq> 0"
    and "length (target_position self) = 3"
    and "prev_action self = None"
  shows "computeReward self =
     (let a = spec_action_phys (HOVER_RPM self) (list4 (last_clipped_action (drone self)))
      in (Inr (spec_reward (list3 (pos (drone self))) (target_position self)
                (list3 (vel (drone self))) (list3 (rpy (drone self))) a
                (spec_da a (zeros 4) (AGGR_PHY_STEPS self))),
          self\<lparr>prev_action := Some a\<rparr>))"
proof -
  let ?a = "spec_action_phys (HOVER_RPM self) (list4 (last_clipped_action (drone self)))"
  have "length ?a = 4"
    by (simp add: length_spec_action_phys length_list4)
  then have "spec_da ?a (zeros 4) (AGGR_PHY_STEPS self)
             = map (\<lambda>x. x / real_of_int (AGGR_PHY_STEPS self)) ?a"
    by (simp add: spec_da_zeros4)
  then show ?thesis
    using assms
    by (simp add: computeReward_def state_slices invProcessAction_eq Let_def broadcast2_def
      length_spec_action_phys length_list4 length_list3 bindE_def div_scalar_def spec_reward_def)
qed

lemma drone_env0:
  "list3 (pos hovering) = [0, 0, 1 / 2]" "list3 (vel hovering) = [0, 0, 0]"
  "list3 (rpy hovering) = [0, 0, 0]"
  "list4 (last_clipped_action hovering) = [14468, 14468, 14468, 14468]"
  by (simp_all add: hovering_def)

lemma hover_action_phys: "spec_action_phys 14468 [14468, 14468, 14468, 14468] = [0, 0, 0, 0]"
  by (simp add: spec_action_phys_def)

lemma spec_reward_hover_after:
  "spec_reward [0, 0, 1 / 2] [0, 0, 1 / 2] [0, 0, 0] [0, 0, 0] [0, 0, 0, 0]
     (spec_da [0, 0, 0, 0] [1, 0, 0, 0] 1) = 1999 / 1000"
  by (simp add: spec_reward_def spec_da_def linalg_norm_zero3 linalg_norm_zero4 linalg_norm_unit4)

text \<open>
  Claim C2, as stated, fails: with the position at the target, no velocity, level, the four
  motors at hover RPM, and the previous action \<open>[1, 0, 0, 0]\<close> stored, the reward is
  1.999, not 2.0, because \<open>da\<close> is then \<open>-previous_action_phys / steps_per_call\<close>.
\<close>

theorem computeReward_hover_counterexample:
  "fst (computeReward (env0\<lparr>prev_action := Some [1, 0, 0, 0]\<rparr>)) = Inr (1999 / 1000)
   \<and> list3 (pos (drone env0)) = target_position env0
   \<and> vel (drone env0) = Vec3 0 0 0 \<and> rpy (drone env0) = Vec3 0 0 0
   \<and> last_clipped_action (drone env0) =
       Vec4 (HOVER_RPM env0) (HOVER_RPM env0) (HOVER_RPM env0) (HOVER_RPM env0)"
proof -
  have "fst (computeReward (env0\<lparr>prev_action := Some [1, 0, 0, 0]\<rparr>)) = Inr (1999 / 1000)"
    using computeReward_stored [of "env0\<lparr>prev_action := Some [1, 0, 0, 0]\<rparr>" "[1, 0, 0, 0]"]
    by (simp add: env0_fields drone_env0 hover_action_phys spec_reward_hover_after Let_def)
  then show ?thesis
    by (simp add: env0_fields hovering_def)
qed


text \<open>
  Claim C2, amended. With a non-zero hover RPM and a non-zero number of steps per call,
  \<^verbatim>\<open>_computeReward\<close> with a previously stored action returns
  \<open>2.0 - 1.0*\<parallel>pos - target\<parallel> - 0.04*\<parallel>vel\<parallel> - 0.02*\<parallel>euler\<parallel> - 0.02*\<parallel>action_phys\<parallel> - 0.001*\<parallel>da\<parallel>\<close>
  with \<open>action_phys = (last_motor_rpm / hover_rpm - 1) * 20\<close> and
  \<open>da = (action_phys - previous_action_phys) / steps_per_call\<close>. In particular, with the
  position at the target, no velocity, zero Euler angles, the motors at hover RPM and a
  stored previous action of zero, the reward is 2.0.
\<close>

theorem computeReward_formula:
  assumes "HOVER_RPM self \<noteq> 0" and "AGGR_PHY_STEPS self \<noteq> 0"
  shows "fst (computeReward (self\<lparr>target_position := [tx, ty, tz],
                                   prev_action := Some [q0, q1, q2, q3]\<rparr>)) =
           Inr (spec_reward (list3 (pos (drone self))) [tx, ty, tz] (list3 (vel (drone self)))
                  (list3 (rpy (drone self)))
                  (spec_action_phys (HOVER_RPM self) (list4 (last_clipped_action (drone self))))
                  (spec_da (spec_action_phys (HOVER_RPM self) (list4 (last_clipped_action (drone self))))
                     [q0, q1, q2, q3] (AGGR_PHY_STEPS self)))
         \<and> fst (computeReward
                 (self\<lparr>drone := (drone self)\<lparr>pos := Vec3 tx ty tz, vel := Vec3 0 0 0, rpy := Vec3 0 0 0,
                            last_clipped_action :=
                              Vec4 (HOVER_RPM self) (HOVER_RPM self) (HOVER_RPM self) (HOVER_RPM self)\<rparr>,
                        target_position := [tx, ty, tz], prev_action := Some [0, 0, 0, 0]\<rparr>)) = Inr 2"
proof -
  let ?e1 = "self\<lparr>target_position := [tx, ty, tz], prev_action := Some [q0, q1, q2, q3]\<rparr>"
  let ?e2 = "self\<lparr>drone := (drone self)\<lparr>pos := Vec3 tx ty tz, vel := Vec3 0 0 0, rpy := Vec3 0 0 0,
                            last_clipped_action :=
                              Vec4 (HOVER_RPM self) (HOVER_RPM self) (HOVER_RPM self) (HOVER_RPM self)\<rparr>,
                        target_position := [tx, ty, tz], prev_action := Some [0, 0, 0, 0]\<rparr>"
  have 1: "fst (computeReward ?e1) =
           Inr (spec_reward (list3 (pos (drone self))) [tx, ty, tz] (list3 (vel (drone self)))
                  (list3 (rpy (drone self)))
                  (spec_action_phys (HOVER_RPM self) (list4 (last_clipped_action (drone self))))
                  (spec_da (spec_action_phys (HOVER_RPM self) (list4 (last_clipped_action (drone self))))
                     [q0, q1, q2, q3] (AGGR_PHY_STEPS self)))"
    using assms computeReward_stored [of ?e1 "[q0, q1, q2, q3]"] by (simp add: Let_def)
  have 2: "fst (computeReward ?e2) = Inr 2"
    using assms computeReward_stored [of ?e2 "[0, 0, 0, 0]"]
    by (simp add: Let_def spec_action_phys_def spec_da_def spec_reward_def linalg_norm_zero3
        linalg_norm_zero4)
  from 1 2 show ?thesis by (rule conjI)
qed

lemma spec_reward_hover_before:
  "spec_reward [0, 0, 1 / 2] [0, 0, 1 / 2] [0, 0, 0] [0, 0, 0] [0, 0, 0, 0]
     (spec_da [0, 0, 0, 0] [- 1, 0, 0, 0] 1) = 1999 / 1000"
  by (simp add: spec_reward_def spec_da_def linalg_norm_zero3 linalg_norm_zero4 linalg_norm_unit4)

text \<open>The theorem at the hovering drone of \<open>env0\<close>, whose previous action was \<open>[-1, 0, 0, 0]\<close>.\<close>

theorem computeReward_formula_witness:
  "HOVER_RPM env0 \<noteq> 0 \<and> AGGR_PHY_STEPS env0 \<noteq> 0
   \<and> fst (computeReward (env0\<lparr>target_position := [0, 0, 1 / 2],
                                prev_action := Some [- 1, 0, 0, 0]\<rparr>)) = Inr (1999 / 1000)"
proof -
  have "fst (computeReward (env0\<lparr>target_position := [0, 0, 1 / 2],
                                  prev_action := Some [- 1, 0, 0, 0]\<rparr>)) = Inr (1999 / 1000)"
    using computeReward_formula [OF env0_nonzero, where tx = 0 and ty = 0 and tz = "1 / 2"
        and ?q0.0 = "- 1" and ?q1.0 = 0 and ?q2.0 = 0 and ?q3.0 = 0, THEN conjunct1]
    by (simp add: env0_fields drone_env0 hover_action_phys spec_reward_hover_before)
  with env0_nonzero show ?thesis by simp
qed

lemma pushed_action_phys:
  "spec_action_phys 14468 [28936, 14468, 14468, 14468] = [20, 0, 0, 0]"
  by (simp add: spec_action_phys_def)

lemma linalg_norm_axis4: "linalg_norm [c, 0, 0, 0] = \<bar>c\<bar>"
  by (simp add: linalg_norm_def)

lemma linalg_norm_div_eq_0:
  "c \<noteq> 0 \<Longrightarrow> linalg_norm (map (\<lambda>x. x / c) xs) = 0 \<longleftrightarrow> linalg_norm xs = 0"
  by (simp add: linalg_norm_eq_0_iff)

lemma linalg_norm4_eq_0: "length xs = 4 \<Longrightarrow> linalg_norm xs = 0 \<longleftrightarrow> xs = [0, 0, 0, 0]"
proof -
  assume "length xs = 4"
  then obtain a b c d where "xs = [a, b, c, d]"
    by (auto simp: length_Suc_conv eval_nat_numeral)
  then show ?thesis
    by (simp add: linalg_norm_eq_0_iff)
qed

lemma spec_reward_pushed:
  "spec_reward [0, 0, 1 / 2] [0, 0, 1 / 2] [0, 0, 0] [0, 0, 0] [20, 0, 0, 0]
     (spec_da [20, 0, 0, 0] (zeros 4) 1) = 158 / 100"
  "spec_reward [0, 0, 1 / 2] [0, 0, 1 / 2] [0, 0, 0] [0, 0, 0] [20, 0, 0, 0]
     (spec_da [20, 0, 0, 0] [20, 0, 0, 0] 1) = 16 / 10"
  by (simp_all add: spec_reward_def spec_da_def zeros4 linalg_norm_zero3 linalg_norm_zero4
      linalg_norm_axis4)

text \<open>
  Claim C4, as stated, fails: on a first call (no previous action) with the first motor at
  twice the hover RPM, \<open>action_phys = [20, 0, 0, 0]\<close> and the reward is 1.58; with
  \<open>previous_action_phys = action_phys\<close>, as the claim has it, \<open>da\<close> would be zero and the
  reward 1.6.
\<close>

theorem computeReward_first_call_counterexample:
  "prev_action env0 = None
   \<and> fst (computeReward
        (env0\<lparr>drone := hovering\<lparr>last_clipped_action := Vec4 28936 14468 14468 14468\<rparr>\<rparr>))
       = Inr (158 / 100)
   \<and> spec_reward [0, 0, 1 / 2] [0, 0, 1 / 2] [0, 0, 0] [0, 0, 0] [20, 0, 0, 0]
        (spec_da [20, 0, 0, 0] [20, 0, 0, 0] 1) = 16 / 10"
proof -
  have "fst (computeReward
        (env0\<lparr>drone := hovering\<lparr>last_clipped_action := Vec4 28936 14468 14468 14468\<rparr>\<rparr>))
       = Inr (158 / 100)"
    using computeReward_first
      [of "env0\<lparr>drone := hovering\<lparr>last_clipped_action := Vec4 28936 14468 14468 14468\<rparr>\<rparr>"]
    by (simp add: env0_fields drone_env0 pushed_action_phys spec_reward_pushed Let_def)
  then show ?thesis
    by (simp add: env0_fields spec_reward_pushed)
qed

text \<open>
  Claim C4, amended. On the first call (no previous action stored), with a non-zero hover
  RPM and a non-zero number of steps per call, the previous \<open>action_phys\<close> is taken to be
  zero: \<open>da = action_phys / steps_per_call\<close>, the method stores \<open>action_phys\<close> as the
  previous action, and the \<open>da\<close> term is zero exactly when \<open>action_phys\<close> is zero.
\<close>

theorem computeReward_first_call:
  assumes "HOVER_RPM self \<noteq> 0" and "AGGR_PHY_STEPS self \<noteq> 0"
  shows "computeReward (self\<lparr>target_position := [tx, ty, tz], prev_action := None\<rparr>) =
           (Inr (spec_reward (list3 (pos (drone self))) [tx, ty, tz] (list3 (vel (drone self)))
                   (list3 (rpy (drone self)))
                   (spec_action_phys (HOVER_RPM self) (list4 (last_clipped_action (drone self))))
                   (spec_da (spec_action_phys (HOVER_RPM self) (list4 (last_clipped_action (drone self))))
                      (zeros 4) (AGGR_PHY_STEPS self))),
            self\<lparr>target_position := [tx, ty, tz],
                 prev_action := Some (spec_action_phys (HOVER_RPM self)
                                        (list4 (last_clipped_action (drone self))))\<rparr>)
         \<and> (linalg_norm (spec_da (spec_action_phys (HOVER_RPM self) (list4 (last_clipped_action (drone self))))
                           (zeros 4) (AGGR_PHY_STEPS self)) = 0
              \<longleftrightarrow> spec_action_phys (HOVER_RPM self) (list4 (last_clipped_action (drone self)))
                    = [0, 0, 0, 0])"
proof -
  let ?e = "self\<lparr>target_position := [tx, ty, tz], prev_action := None\<rparr>"
  let ?a = "spec_action_phys (HOVER_RPM self) (list4 (last_clipped_action (drone self)))"
  have 1: "computeReward ?e =
           (Inr (spec_reward (list3 (pos (drone self))) [tx, ty, tz] (list3 (vel (drone self)))
                   (list3 (rpy (drone self))) ?a (spec_da ?a (zeros 4) (AGGR_PHY_STEPS self))),
            self\<lparr>target_position := [tx, ty, tz], prev_action := Some ?a\<rparr>)"
    using assms computeReward_first [of ?e] by (simp add: Let_def)
  have len: "length ?a = 4"
    by (simp add: length_spec_action_phys length_list4)
  have 2: "linalg_norm (spec_da ?a (zeros 4) (AGGR_PHY_STEPS self)) = 0 \<longleftrightarrow> ?a = [0, 0, 0, 0]"
    using assms unfolding spec_da_zeros4 [OF len]
    by (simp only: linalg_norm_div_eq_0 linalg_norm4_eq_0 [OF len] of_int_eq_0_iff not_False_eq_True)
  from 1 2 show ?thesis by (rule conjI)
qed

text \<open>The theorem at \<open>env0\<close> with the first motor at twice the hover RPM.\<close>

theorem computeReward_first_call_witness:
  "HOVER_RPM env0 \<noteq> 0 \<and> AGGR_PHY_STEPS env0 \<noteq> 0
   \<and> fst (computeReward
        (env0\<lparr>drone := hovering\<lparr>last_clipped_action := Vec4 28936 14468 14468 14468\<rparr>,
              target_position := [0, 0, 1 / 2], prev_action := None\<rparr>)) = Inr (158 / 100)"
proof -
  let ?e = "env0\<lparr>drone := hovering\<lparr>last_clipped_action := Vec4 28936 14468 14468 14468\<rparr>\<rparr>"
  have nz: "HOVER_RPM ?e \<noteq> 0" "AGGR_PHY_STEPS ?e \<noteq> 0"
    by (simp_all add: env0_fields)
  have "fst (computeReward (?e\<lparr>target_position := [0, 0, 1 / 2], prev_action := None\<rparr>))
          = Inr (158 / 100)"
    using computeReward_first_call [OF nz, where tx = 0 and ty = 0 and tz = "1 / 2", THEN conjunct1]
    by (simp add: env0_fields drone_env0 pushed_action_phys spec_reward_pushed)
  with env0_nonzero show ?thesis by simp
qed

subsection \<open>Termination\<close>

lemma computeDone_eq:
  "computeDone (self\<lparr>drone := s\<lparr>pos := Vec3 x y z, rpy := Vec3 r pt yw\<rparr>\<rparr>) =
     Inr (\<bar>x\<bar> > 3 \<or> \<bar>y\<bar> > 3 \<or> \<bar>z\<bar> > 3 \<or> \<bar>z\<bar> < 0.02
          \<or> \<bar>r\<bar> > pi / 2 \<or> \<bar>pt\<bar> > pi / 2 \<or> \<bar>yw\<bar> > pi / 2)"
  by (simp add: computeDone_def state_slices abs_gt_def abs_lt_def getitem_def bindE_def orE_def
      Let_def)

text \<open>
  Claim C3, as stated, fails: a level drone one metre below the ground plane, at
  \<open>(0, 0, -1)\<close>, has its altitude below 0.02, yet \<^verbatim>\<open>_computeDone\<close> returns false, because the
  source compares \<^verbatim>\<open>np.abs(curr_pos[2])\<close>, which is 1, with 0.02.
\<close>

theorem computeDone_altitude_counterexample:
  "computeDone (env0\<lparr>drone := hovering\<lparr>pos := Vec3 0 0 (- 1), rpy := Vec3 0 0 0\<rparr>\<rparr>) = Inr False
   \<and> spec_done (Vec3 0 0 (- 1)) (Vec3 0 0 0)"
  by (simp add: computeDone_eq)

text \<open>
  Claim C3, amended. \<^verbatim>\<open>_computeDone\<close> returns true if and only if some position component
  exceeds 3 in magnitude, or the magnitude of the altitude is below 0.02, or some Euler
  angle exceeds \<open>\<pi>/2\<close> in magnitude. The comparison with 3 is strict: the position
  \<open>(3.0, 0, 0.5)\<close> of a level drone yields false, and a first position component of 3.0001
  yields true.
\<close>

theorem computeDone_condition:
  "computeDone (self\<lparr>drone := s\<lparr>pos := Vec3 x y z, rpy := Vec3 r pt yw\<rparr>\<rparr>) =
     Inr (\<bar>x\<bar> > 3 \<or> \<bar>y\<bar> > 3 \<or> \<bar>z\<bar> > 3 \<or> \<bar>z\<bar> < 0.02
          \<or> \<bar>r\<bar> > pi / 2 \<or> \<bar>pt\<bar> > pi / 2 \<or> \<bar>yw\<bar> > pi / 2)
   \<and> computeDone (self\<lparr>drone := s\<lparr>pos := Vec3 3.0 0 0.5, rpy := Vec3 0 0 0\<rparr>\<rparr>) = Inr False
   \<and> computeDone (self\<lparr>drone := s\<lparr>pos := Vec3 3.0001 y z, rpy := Vec3 r pt yw\<rparr>\<rparr>) = Inr True"
proof -
  have "computeDone (self\<lparr>drone := s\<lparr>pos := Vec3 3.0 0 0.5, rpy := Vec3 0 0 0\<rparr>\<rparr>) = Inr False"
    by (simp add: computeDone_eq)
  moreover
  have "computeDone (self\<lparr>drone := s\<lparr>pos := Vec3 3.0001 y z, rpy := Vec3 r pt yw\<rparr>\<rparr>) = Inr True"
    by (simp add: computeDone_eq)
  ultimately show ?thesis
    using computeDone_eq [where self = self and s = s and x = x and y = y and z = z
        and r = r and pt = pt and yw = yw] by blast
qed

subsection \<open>The kinematic observation\<close>

lemma computeObs_KIN_eq:
  "computeObs p w (self\<lparr>OBS_TYPE := Member KIN, target_position := [tx, ty, tz],
                        drone := s\<lparr>pos := Vec3 x y z\<rparr>\<rparr>) =
     (Inr (Some (Kinematic ([tx - x, ty - y, tz - z] @ list3 (vel s) @ list3 (ang_v s)
        @ list9 (getMatrixFromQuaternion p (getQuaternionFromEuler p (list3 (rpy s))))))),
      w, self\<lparr>OBS_TYPE := Member KIN, target_position := [tx, ty, tz],
              drone := s\<lparr>pos := Vec3 x y z\<rparr>\<rparr>)"
  by (simp add: computeObs_def state_slices Let_def broadcast2_def bindE_def reshape_def
      length_list3 length_list9)

text \<open>
  Claim C7. Under \<^verbatim>\<open>ObservationType.KIN\<close>, for every drone state and stored target
  \<open>[tx, ty, tz]\<close>, \<^verbatim>\<open>_computeObs\<close> returns an 18-element vector, the concatenation of
  target minus position, the linear velocity, the angular velocity and the 9 entries that
  \<^verbatim>\<open>p.getMatrixFromQuaternion\<close> gives for the quaternion of the current Euler angles; its
  first 3 elements are target minus position. Nothing is printed and the object is
  unchanged.
\<close>

theorem computeObs_KIN:
  "\<exists>v. computeObs p w (self\<lparr>OBS_TYPE := Member KIN, target_position := [tx, ty, tz],
                             drone := s\<lparr>pos := Vec3 x y z\<rparr>\<rparr>) =
          (Inr (Some (Kinematic v)), w,
           self\<lparr>OBS_TYPE := Member KIN, target_position := [tx, ty, tz],
                drone := s\<lparr>pos := Vec3 x y z\<rparr>\<rparr>)
        \<and> length v = 18
        \<and> v = [tx - x, ty - y, tz - z] @ list3 (vel s) @ list3 (ang_v s)
               @ list9 (getMatrixFromQuaternion p (getQuaternionFromEuler p (list3 (rpy s))))
        \<and> take 3 v = [tx - x, ty - y, tz - z]"
  by (simp add: computeObs_KIN_eq length_list3 length_list9)

text \<open>
  Claim C1 fails on the code: under \<^verbatim>\<open>ObservationType.KIN\<close> the observation has 18
  elements, while the \<^verbatim>\<open>Box\<close> that \<^verbatim>\<open>_observationSpace\<close> declares has shape \<open>(12,)\<close>, the
  shape that the docstrings of both methods give.
\<close>

theorem computeObs_KIN_shape_mismatch:
  "\<exists>v sp. fst (computeObs p w (self\<lparr>OBS_TYPE := Member KIN, target_position := [tx, ty, tz],
                                     drone := s\<lparr>pos := Vec3 x y z\<rparr>\<rparr>)) = Inr (Some (Kinematic v))
          \<and> fst (observationSpace w (self\<lparr>OBS_TYPE := Member KIN, target_position := [tx, ty, tz],
                                          drone := s\<lparr>pos := Vec3 x y z\<rparr>\<rparr>)) = Inr (Some sp)
          \<and> length v = 18 \<and> shape sp = [12] \<and> shape sp \<noteq> [length v]"
  by (simp add: computeObs_KIN_eq observationSpace_def length_list3 length_list9)

subsection \<open>Action decoding\<close>

text \<open>
  Claim C9. For every scalar \<open>a\<close> (in particular in \<open>[-1, 1]\<close>), \<open>[a]\<close> under
  \<^verbatim>\<open>ActionType.ONE_D_RPM\<close> and \<open>[a, a, a, a]\<close> under \<^verbatim>\<open>ActionType.RPM\<close> decode to the same
  motor command, four times \<open>hover_rpm * (1 + 0.05 * a)\<close>; the zero actions decode to four
  times the hover RPM. Nothing is printed.
\<close>

theorem preprocessAction_RPM_ONE_D_RPM:
  "preprocessAction w (self\<lparr>ACT_TYPE := Member ONE_D_RPM\<rparr>) [a] =
     (Inr (Some (Rpm (replicate 4 (HOVER_RPM self * (1 + 0.05 * a))))), w)
   \<and> preprocessAction w (self\<lparr>ACT_TYPE := Member RPM\<rparr>) [a, a, a, a] =
     (Inr (Some (Rpm (replicate 4 (HOVER_RPM self * (1 + 0.05 * a))))), w)
   \<and> preprocessAction w (self\<lparr>ACT_TYPE := Member RPM\<rparr>) (zeros 4) =
     (Inr (Some (Rpm [HOVER_RPM self, HOVER_RPM self, HOVER_RPM self, HOVER_RPM self])), w)
   \<and> preprocessAction w (self\<lparr>ACT_TYPE := Member ONE_D_RPM\<rparr>) [0] =
     (Inr (Some (Rpm [HOVER_RPM self, HOVER_RPM self, HOVER_RPM self, HOVER_RPM self])), w)"
  by (simp add: preprocessAction_def scalar_mul_def scalar_add_def repeat_def zeros_def
      eval_nat_numeral)

lemma getitem_state_9:
  "getitem (getDroneStateVector (s\<lparr>rpy := Vec3 r pt yw\<rparr>)) 9 = Inr yw"
  by (cases "pos s"; cases "quat s")
     (simp add: getitem_def getDroneStateVector_def length_list3 length_list4 nth_append)

lemma slice4_0_3: "slice [a, b, c, d] 0 3 = [a, b, c]"
  by (simp add: slice_def)

lemma scalar_mul_zeros3: "scalar_mul k (zeros 3) = [0, 0, 0]"
  by (simp add: scalar_mul_def zeros_def eval_nat_numeral)

text \<open>
  Claim C8. Under \<^verbatim>\<open>ActionType.VEL\<close>, with the controller and the speed limit that
  \<^verbatim>\<open>__init__\<close> creates for this action type, every action of at least 4 components
  whose first three have zero norm, in particular \<open>[0, 0, 0, x]\<close>, is decoded into a call
  of \<^verbatim>\<open>computeControl\<close> with the target velocity \<open>[0, 0, 0]\<close>: the source takes the branch
  \<^verbatim>\<open>np.zeros(3)\<close> and divides by no norm, so the outcome is not \<open>NonFinite\<close>.
\<close>

theorem preprocessAction_VEL_zero_norm:
  assumes "linalg_norm (slice action 0 3) = 0" and "3 < length action"
  shows "preprocessAction w (self\<lparr>ACT_TYPE := Member VEL, ctrl := Attr c, SPEED_LIMIT := Attr sl,
                                   drone := s\<lparr>rpy := Vec3 r pt yw\<rparr>\<rparr>) action =
     (Inr (Some (Delegated (ComputeControl c
        \<lparr>control_timestep = real_of_int (AGGR_PHY_STEPS self) * TIMESTEP self,
         cur_pos = list3 (pos s), cur_quat = list4 (quat s),
         cur_vel = list3 (vel s), cur_ang_vel = list3 (ang_v s),
         target_pos = list3 (pos s), target_rpy = Some [0, 0, yw],
         target_vel = Some [0, 0, 0]\<rparr>))), w)
     \<and> (\<exists>args. preprocessAction w (self\<lparr>ACT_TYPE := Member VEL, ctrl := Attr c, SPEED_LIMIT := Attr sl,
                                   drone := s\<lparr>rpy := Vec3 r pt yw\<rparr>\<rparr>) [0, 0, 0, x]
           = (Inr (Some (Delegated (ComputeControl c args))), w) \<and> target_vel args = Some [0, 0, 0])"
proof -
  have 1: "preprocessAction w (self\<lparr>ACT_TYPE := Member VEL, ctrl := Attr c, SPEED_LIMIT := Attr sl,
                                   drone := s\<lparr>rpy := Vec3 r pt yw\<rparr>\<rparr>) action =
     (Inr (Some (Delegated (ComputeControl c
        \<lparr>control_timestep = real_of_int (AGGR_PHY_STEPS self) * TIMESTEP self,
         cur_pos = list3 (pos s), cur_quat = list4 (quat s),
         cur_vel = list3 (vel s), cur_ang_vel = list3 (ang_v s),
         target_pos = list3 (pos s), target_rpy = Some [0, 0, yw],
         target_vel = Some [0, 0, 0]\<rparr>))), w)"
    using assms
    by (simp add: preprocessAction_def state_slices Let_def getattr_def getitem_state_9
        bindE_def scalar_mul_zeros3)
       (simp add: getitem_def state_slices scalar_mul_zeros3)
  have 2: "preprocessAction w (self\<lparr>ACT_TYPE := Member VEL, ctrl := Attr c, SPEED_LIMIT := Attr sl,
                                   drone := s\<lparr>rpy := Vec3 r pt yw\<rparr>\<rparr>) [0, 0, 0, x] =
     (Inr (Some (Delegated (ComputeControl c
        \<lparr>control_timestep = real_of_int (AGGR_PHY_STEPS self) * TIMESTEP self,
         cur_pos = list3 (pos s), cur_quat = list4 (quat s),
         cur_vel = list3 (vel s), cur_ang_vel = list3 (ang_v s),
         target_pos = list3 (pos s), target_rpy = Some [0, 0, yw],
         target_vel = Some [0, 0, 0]\<rparr>))), w)"
    by (simp add: preprocessAction_def state_slices Let_def getattr_def getitem_state_9
        bindE_def scalar_mul_zeros3 linalg_norm_zero3 slice4_0_3)
       (simp add: getitem_def state_slices scalar_mul_zeros3)
  from 1 2 show ?thesis by simp
qed

text \<open>The theorem at the action \<open>[0, 0, 0, 0.7]\<close>.\<close>

theorem preprocessAction_VEL_zero_norm_witness:
  "linalg_norm (slice [0, 0, 0, 7 / 10] 0 3) = 0 \<and> 3 < length [0, 0, 0, 7 / 10 :: real]
   \<and> preprocessAction w0 (env0\<lparr>ACT_TYPE := Member VEL, ctrl := Attr (DSLPIDControl CF2X),
                                 SPEED_LIMIT := Attr (1 / 4),
                                 drone := hovering\<lparr>rpy := Vec3 0 0 0\<rparr>\<rparr>) [0, 0, 0, 7 / 10] =
     (Inr (Some (Delegated (ComputeControl (DSLPIDControl CF2X)
        \<lparr>control_timestep = 1 / 240,
         cur_pos = [0, 0, 1 / 2], cur_quat = [0, 0, 0, 1],
         cur_vel = [0, 0, 0], cur_ang_vel = [0, 0, 0],
         target_pos = [0, 0, 1 / 2], target_rpy = Some [0, 0, 0],
         target_vel = Some [0, 0, 0]\<rparr>))), w0)"
proof -
  have h: "linalg_norm (slice [0, 0, 0, 7 / 10] 0 3) = 0" "3 < length [0, 0, 0, 7 / 10 :: real]"
    by (simp_all add: slice4_0_3 linalg_norm_zero3)
  show ?thesis
    using h preprocessAction_VEL_zero_norm [OF h, where w = w0 and self = env0
        and c = "DSLPIDControl CF2X" and sl = "1 / 4" and s = hovering and r = 0 and pt = 0
        and yw = 0, THEN conjunct1]
    by (simp add: env0_def base0_def BaseAviary.defs MyAviary.defs hovering_def)
qed

subsection \<open>Construction\<close>

lemma create_controllers_CF2P:
  "act \<in> {Member PID, Member VEL, Member TUN, Member THR, Member ONE_D_PID} \<Longrightarrow>
   fst (create_controllers w (Member CF2P) act) = Attr (DSLPIDControl CF2X)"
  by (simp add: create_controllers_def)

lemma init_ctrl:
  "init super_init has_tracking w dm xyzs rpys phy fr aggr g rec obs act = (Inr env, w') \<Longrightarrow>
   ctrl env = fst (create_controllers w dm act)"
  by (auto simp: init_def bindE_def BaseAviary.defs MyAviary.defs
      split: prod.splits sum.splits if_splits)

text \<open>
  Claim C10. For every construction with \<^verbatim>\<open>drone_model = CF2P\<close> and an action type that needs
  a closed-loop controller (PID, VEL, TUN, THR, ONE_D_PID), the controller created is
  \<^verbatim>\<open>DSLPIDControl(drone_model=DroneModel.CF2X)\<close>, and it is the controller of every environment
  the construction returns.
\<close>

theorem init_CF2P_controller:
  assumes "act \<in> {Member PID, Member VEL, Member TUN, Member THR, Member ONE_D_PID}"
  shows "fst (create_controllers w (Member CF2P) act) = Attr (DSLPIDControl CF2X)
     \<and> (\<forall>env w'. init super_init has_tracking w (Member CF2P) xyzs rpys phy fr aggr g rec obs act
                    = (Inr env, w') \<longrightarrow> ctrl env = Attr (DSLPIDControl CF2X))"
  using assms create_controllers_CF2P [OF assms] init_ctrl by metis

lemma init_env0_PID:
  "\<exists>env. init super0 False w0 (Member CF2P) None None () 240 1 False False (Member KIN) (Member PID)
         = (Inr env, w0)"
  by (simp add: init_def create_controllers_def super0_def bindE_def getitem_def base0_def)

text \<open>The theorem at the construction of a CF2P environment with \<^verbatim>\<open>ActionType.PID\<close>.\<close>

theorem init_CF2P_controller_witness:
  "Member PID \<in> {Member PID, Member VEL, Member TUN, Member THR, Member ONE_D_PID}
   \<and> fst (create_controllers w0 (Member CF2P) (Member PID)) = Attr (DSLPIDControl CF2X)
   \<and> (\<exists>env. init super0 False w0 (Member CF2P) None None () 240 1 False False (Member KIN) (Member PID)
              = (Inr env, w0) \<and> ctrl env = Attr (DSLPIDControl CF2X))"
proof -
  have h: "Member PID \<in> {Member PID, Member VEL, Member TUN, Member THR, Member ONE_D_PID}"
    by simp
  from init_env0_PID obtain env where
    e: "init super0 False w0 (Member CF2P) None None () 240 1 False False (Member KIN) (Member PID)
         = (Inr env, w0)" ..
  from init_CF2P_controller [OF h, where w = w0 and super_init = super0 and has_tracking = False
      and xyzs = None and rpys = None and phy = "()" and fr = 240 and aggr = 1 and g = False
      and rec = False and obs = "Member KIN"] e
  have "fst (create_controllers w0 (Member CF2P) (Member PID)) = Attr (DSLPIDControl CF2X)"
    and "ctrl env = Attr (DSLPIDControl CF2X)"
    by blast+
  with h e show ?thesis by blast
qed

text \<open>
  Claim C6, as stated, fails: with an action type outside the enumeration,
  \<^verbatim>\<open>_preprocessAction\<close> prints its error and returns \<^verbatim>\<open>None\<close>, and with a drone model other
  than CF2X, CF2P and HB the controller stage of \<^verbatim>\<open>__init__\<close> prints its error, creates no
  controller and goes on to the base-class constructor; with an observation type outside
  the enumeration \<^verbatim>\<open>_computeObs\<close> prints its error and returns \<^verbatim>\<open>None\<close>. None of them
  terminates the process.
\<close>

theorem unsupported_not_fatal_counterexample:
  "preprocessAction w0 (env0\<lparr>ACT_TYPE := NotMember\<rparr>) [0, 0, 0, 0] =
     (Inr None, w0\<lparr>stdout := [''[ERROR] in BaseSingleAgentAviary._preprocessAction()'']\<rparr>)
   \<and> create_controllers w0 NotMember (Member PID) =
     (Absent, Absent,
      w0\<lparr>stdout := [''[ERROR] in BaseSingleAgentAviary.__init()__, no controller is available for the specified drone_model'']\<rparr>)
   \<and> computeObs p0 w0 (env0\<lparr>OBS_TYPE := NotMember\<rparr>) =
     (Inr None, w0\<lparr>stdout := [''[ERROR] in BaseSingleAgentAviary._computeObs()'']\<rparr>,
      env0\<lparr>OBS_TYPE := NotMember\<rparr>)"
  by (simp add: preprocessAction_def create_controllers_def computeObs_def print_def w0_def)

text \<open>
  Claim C6, amended. Constructing the environment with \<^verbatim>\<open>ActionType.TUN\<close> when the class has
  no \<^verbatim>\<open>_trajectoryTrackingRPMs\<close> never returns an environment: once the base-class
  constructor has returned, \<^verbatim>\<open>__init__\<close> prints its error and exits. \<^verbatim>\<open>_actionSpace\<close> with an
  action type outside the enumeration prints its error and exits.
\<close>

theorem fatal_misconfiguration:
  "(\<exists>e w'. init super_init False w dm xyzs rpys phy fr aggr g rec obs (Member TUN) = (Inl e, w'))
   \<and> (\<forall>base w2.
        super_init
          \<lparr>drone_model = dm, num_drones = 1, initial_xyzs = xyzs, initial_rpys = rpys,
           physics = phy, freq = fr, aggregate_phy_steps = aggr, gui = g, to_record = rec,
           obstacles = True, user_debug_gui = False, vision_attributes = (obs = Member RGB),
           dynamics_attributes = False\<rparr>
          (snd (snd (create_controllers w dm (Member TUN)))) = (Inr base, w2)
        \<longrightarrow> init super_init False w dm xyzs rpys phy fr aggr g rec obs (Member TUN) =
             (Inl SystemExit,
              print ''[ERROR] in BaseSingleAgentAviary.__init__(), ActionType.TUN requires an implementation of _trajectoryTrackingRPMs in the instantiated subclass'' w2))
   \<and> actionSpace w (self\<lparr>ACT_TYPE := NotMember\<rparr>) =
       (Inl SystemExit, print ''[ERROR] in BaseSingleAgentAviary._actionSpace()'' w)"
proof -
  have 1: "\<exists>e w'. init super_init False w dm xyzs rpys phy fr aggr g rec obs (Member TUN) = (Inl e, w')"
    by (auto simp: init_def split: prod.splits sum.splits)
  have 2: "\<forall>base w2.
        super_init
          \<lparr>drone_model = dm, num_drones = 1, initial_xyzs = xyzs, initial_rpys = rpys,
           physics = phy, freq = fr, aggregate_phy_steps = aggr, gui = g, to_record = rec,
           obstacles = True, user_debug_gui = False, vision_attributes = (obs = Member RGB),
           dynamics_attributes = False\<rparr>
          (snd (snd (create_controllers w dm (Member TUN)))) = (Inr base, w2)
        \<longrightarrow> init super_init False w dm xyzs rpys phy fr aggr g rec obs (Member TUN) =
             (Inl SystemExit,
              print ''[ERROR] in BaseSingleAgentAviary.__init__(), ActionType.TUN requires an implementation of _trajectoryTrackingRPMs in the instantiated subclass'' w2)"
    by (auto simp: init_def split: prod.splits sum.splits)
  have 3: "actionSpace w (self\<lparr>ACT_TYPE := NotMember\<rparr>) =
       (Inl SystemExit, print ''[ERROR] in BaseSingleAgentAviary._actionSpace()'' w)"
    by (simp add: actionSpace_def)
  from 1 2 3 show ?thesis by blast
qed

text \<open>The theorem at a CF2X construction whose base-class constructor succeeds.\<close>

theorem fatal_misconfiguration_witness:
  "super0
     \<lparr>drone_model = Member CF2X, num_drones = 1, initial_xyzs = None, initial_rpys = None,
      physics = (), freq = 240, aggregate_phy_steps = 1, gui = False, to_record = False,
      obstacles = True, user_debug_gui = False, vision_attributes = False,
      dynamics_attributes = False\<rparr>
     (snd (snd (create_controllers w0 (Member CF2X) (Member TUN)))) = (Inr base0, w0)
   \<and> init super0 False w0 (Member CF2X) None None () 240 1 False False (Member KIN) (Member TUN) =
       (Inl SystemExit,
        w0\<lparr>stdout := [''[ERROR] in BaseSingleAgentAviary.__init__(), ActionType.TUN requires an implementation of _trajectoryTrackingRPMs in the instantiated subclass'']\<rparr>)"
proof -
  have h: "super0
     \<lparr>drone_model = Member CF2X, num_drones = 1, initial_xyzs = None, initial_rpys = None,
      physics = (), freq = 240, aggregate_phy_steps = 1, gui = False, to_record = False,
      obstacles = True, user_debug_gui = False, vision_attributes = (Member KIN = Member RGB),
      dynamics_attributes = False\<rparr>
     (snd (snd (create_controllers w0 (Member CF2X) (Member TUN)))) = (Inr base0, w0)"
    by (simp add: super0_def create_controllers_def)
  have p: "print m w0 = w0\<lparr>stdout := [m]\<rparr>" for m
    by (simp add: print_def w0_def)
  from fatal_misconfiguration [where super_init = super0 and w = w0 and dm = "Member CF2X"
      and xyzs = None and rpys = None and phy = "()" and fr = 240 and aggr = 1 and g = False
      and rec = False and obs = "Member KIN", THEN conjunct2, THEN conjunct1, rule_format, OF h]
  show ?thesis
    using h by (simp add: p)
qed

subsection \<open>The target\<close>

lemma addTarget_attributes:
  "target_position (snd (snd (addTarget p w self position visual))) = position"
  "prev_underscore (snd (snd (addTarget p w self position visual))) = Attr None"
  "prev_action (snd (snd (addTarget p w self position visual))) = prev_action self"
  by (simp_all add: addTarget_def Let_def loadURDF_def resetBasePositionAndOrientation_def
      split: option.splits prod.splits)

text \<open>
  With at least one body in the physics server before (the ground plane, which
  \<^verbatim>\<open>BaseAviary\<close> loads first), the first visual call creates one body and keeps its id, and
  a second visual call moves that body and creates none.
\<close>

lemma addTarget_marker_once:
  assumes "bodies w \<noteq> []" and "target_ID self = None"
    and "addTarget p w self position1 True = (r1, w1, self1)"
    and "addTarget p w1 self1 position2 True = (r2, w2, self2)"
  shows "r1 = Inr () \<and> r2 = Inr ()
     \<and> length (bodies w1) = Suc (length (bodies w)) \<and> target_ID self1 = Some (length (bodies w))
     \<and> length (bodies w2) = length (bodies w1) \<and> target_ID self2 = target_ID self1
     \<and> basePosition (bodies w2 ! length (bodies w)) = position2"
proof -
  from assms(2,3) have 1: "r1 = Inr ()" "target_ID self1 = Some (length (bodies w))"
    "bodies w1 = bodies w @ [\<lparr>urdf = ''cube_small.urdf'', basePosition = position1,
                               baseOrientation = getQuaternionFromEuler p [0, 0, 0]\<rparr>]"
    by (auto simp: addTarget_def Let_def loadURDF_def)
  from assms(1) have nz: "length (bodies w) \<noteq> 0" by simp
  from assms(4) 1 nz have 2: "r2 = Inr ()" "target_ID self2 = target_ID self1"
    "bodies w2 = (bodies w1)[length (bodies w) :=
        (bodies w1 ! length (bodies w))\<lparr>basePosition := position2,
           baseOrientation := getQuaternionFromEuler p [0, 0, 0]\<rparr>]"
    by (auto simp: addTarget_def Let_def resetBasePositionAndOrientation_def)
  from 1 2 show ?thesis by simp
qed

lemma spec_reward_stale:
  "spec_reward [0, 0, 1 / 2] [0, 0, 1 / 2] [0, 0, 0] [0, 0, 0] [0, 0, 0, 0]
     (spec_da [0, 0, 0, 0] [20, 0, 0, 0] 1) = 198 / 100"
  "spec_reward [0, 0, 1 / 2] [0, 0, 1 / 2] [0, 0, 0] [0, 0, 0] [0, 0, 0, 0]
     (spec_da [0, 0, 0, 0] (zeros 4) 1) = 2"
  by (simp_all add: spec_reward_def spec_da_def zeros4 linalg_norm_zero3 linalg_norm_zero4
      linalg_norm_axis4)

text \<open>
  Claim C5 fails on the code: \<^verbatim>\<open>_addTarget\<close> assigns \<^verbatim>\<open>None\<close> to the attribute \<^verbatim>\<open>prev_\<close>, which
  nothing reads, and leaves \<^verbatim>\<open>prev_action\<close>, the state that \<^verbatim>\<open>_computeReward\<close> consumes, as it
  was. After a previous action \<open>[20, 0, 0, 0]\<close>, a call of \<^verbatim>\<open>_addTarget\<close> stores the target and
  keeps that previous action, and the next reward of the hovering drone at the target is
  1.98, where it would be 2.0 had the previous action been reset.
\<close>

theorem addTarget_keeps_prev_action:
  "\<exists>self'. addTarget p0 w0 (env0\<lparr>prev_action := Some [20, 0, 0, 0]\<rparr>) [0, 0, 1 / 2] False
            = (Inr (), w0, self')
     \<and> target_position self' = [0, 0, 1 / 2]
     \<and> prev_underscore self' = Attr None
     \<and> prev_action self' = Some [20, 0, 0, 0]
     \<and> fst (computeReward self') = Inr (198 / 100)
     \<and> fst (computeReward (self'\<lparr>prev_action := None\<rparr>)) = Inr 2"
proof -
  let ?e = "env0\<lparr>prev_action := Some [20, 0, 0, 0], target_position := [0, 0, 1 / 2],
                 prev_underscore := Attr None\<rparr>"
  have a: "addTarget p0 w0 (env0\<lparr>prev_action := Some [20, 0, 0, 0]\<rparr>) [0, 0, 1 / 2] False
            = (Inr (), w0, ?e)"
    by (simp add: addTarget_def Let_def)
  have r1: "fst (computeReward ?e) = Inr (198 / 100)"
    using computeReward_stored [of ?e "[20, 0, 0, 0]"]
    by (simp add: env0_fields drone_env0 hover_action_phys spec_reward_stale Let_def)
  have r2: "fst (computeReward (?e\<lparr>prev_action := None\<rparr>)) = Inr 2"
    using computeReward_first [of "?e\<lparr>prev_action := None\<rparr>"]
    by (simp add: env0_fields drone_env0 hover_action_phys spec_reward_stale Let_def)
  from a r1 r2 show ?thesis by simp
qed

end
